theory Spec2Isabelle
  imports Main
begin

section \<open>The import command of fabric-cli: flow validation and dispatch\<close>

text \<open>
  The development embeds two Python functions:
  \<^item> \<open>validate_import_args\<close> of \<open>fabric_cli/parsers/fab_parser_validators.py\<close>, with its
    local helper \<open>_check_required_param\<close>;
  \<^item> \<open>exec_command\<close> of \<open>fabric_cli/commands/fs/fab_fs_import.py\<close>.
  An exception is a value on the left of a sum, a mutation of the argument object is a
  record update that the function returns.
\<close>

subsection \<open>Values and truthiness\<close>

text \<open>
  The options of the import command hold \<open>None\<close>, a string, or a list of strings
  (\<open>path\<close> and \<open>-i/--input\<close> are repeatable).
\<close>

datatype pyval = PNone | PStr string | PList "string list"

text \<open>Python's truth value: \<open>None\<close>, the empty string and the empty list are false.\<close>

fun truthy :: "pyval \<Rightarrow> bool" where
  "truthy PNone = False"
| "truthy (PStr s) = (s \<noteq> [])"
| "truthy (PList xs) = (xs \<noteq> [])"

text \<open>\<open>a or b\<close> and \<open>a and b\<close> return one of their operands.\<close>

definition py_or :: "pyval \<Rightarrow> pyval \<Rightarrow> pyval" where
  "py_or a b = (if truthy a then a else b)"

definition py_and :: "pyval \<Rightarrow> pyval \<Rightarrow> pyval" where
  "py_and a b = (if truthy a then b else a)"

subsection \<open>The parameter bag\<close>

text \<open>
  The \<open>argparse.Namespace\<close> of the import command. The parser defines every option, so
  each attribute exists; an option the caller did not give holds \<open>None\<close> (the test
  helper \<open>create_args\<close> builds bags the same way).
\<close>

record Namespace =
  path :: pyval
  input :: pyval
  format :: pyval
  config_file :: pyval
  env :: pyval
  params :: pyval

text \<open>\<open>getattr(args, attr_name, None)\<close>: the attribute of that name, or the default.\<close>

definition getattr :: "Namespace \<Rightarrow> string \<Rightarrow> pyval \<Rightarrow> pyval" where
  "getattr args attr_name dflt =
     (if attr_name = ''path'' then path args
      else if attr_name = ''input'' then input args
      else if attr_name = ''format'' then format args
      else if attr_name = ''config_file'' then config_file args
      else if attr_name = ''env'' then env args
      else if attr_name = ''params'' then params args
      else dflt)"

subsection \<open>Collaborators outside the sources\<close>

text \<open>
  \<open>fabric_cli.core.fab_constant\<close> and \<open>fabric_cli.errors.ErrorMessages.Common\<close> are
  imported by the validator and are not part of the sources at hand. The validator uses
  one constant of the first and three functions of the second; both are parameters of
  the model, so every theorem holds for any status code and any wording.
\<close>

record fab_constant =
  ERROR_IMPORT_VALIDATION :: string

record Common =
  import_required_param_missing :: "string \<Rightarrow> string \<Rightarrow> string \<Rightarrow> string"
  import_mixed_flows_error :: string
  import_no_flow_specified_error :: string

text \<open>\<open>FabricCLIError(message, status_code)\<close>.\<close>

datatype FabricCLIError = FabricCLIError (message: string) (status_code: string)

subsection \<open>The flow validator\<close>

text \<open>
  \<open>_check_required_param\<close> (an identifier cannot start with an underscore): raises when
  the attribute is not truthy, returns nothing otherwise.
\<close>

definition check_required_param ::
  "fab_constant \<Rightarrow> Common \<Rightarrow> Namespace \<Rightarrow> string \<Rightarrow> string \<Rightarrow> string \<Rightarrow> string
     \<Rightarrow> FabricCLIError + unit" where
  "check_required_param fc cm args attr_name param_display_name flow_name flow_syntax =
     (let param_value = getattr args attr_name PNone in
      if \<not> truthy param_value then
        (let error_message =
               import_required_param_missing cm param_display_name flow_name flow_syntax
         in Inl (FabricCLIError error_message (ERROR_IMPORT_VALIDATION fc)))
      else Inr ())"

definition validate_import_args ::
  "fab_constant \<Rightarrow> Common \<Rightarrow> Namespace \<Rightarrow> FabricCLIError + Namespace" where
  "validate_import_args fc cm args =
     (let is_direct_api_flow = py_or (py_or (path args) (input args)) (format args);
          is_cicd_flow = py_or (py_or (config_file args) (env args)) (params args)
      in
      if truthy (py_and is_direct_api_flow is_cicd_flow) then
        (let error_message = import_mixed_flows_error cm
         in Inl (FabricCLIError error_message (ERROR_IMPORT_VALIDATION fc)))
      else if truthy is_direct_api_flow then
        (let flow_syntax = ''fab import <path> -i <input_path> [--format <format>]'' in
         case check_required_param fc cm args ''path'' ''path'' ''Direct API'' flow_syntax of
           Inl e \<Rightarrow> Inl e
         | Inr _ \<Rightarrow>
            (case check_required_param fc cm args ''input'' ''-i/--input''
                    ''Direct API'' flow_syntax of
               Inl e \<Rightarrow> Inl e
             | Inr _ \<Rightarrow> Inr args))
      else if truthy is_cicd_flow then
        (let flow_syntax =
               ''fab import --config-file <config_path> --env <env_name> [-P <params>]'' in
         case check_required_param fc cm args ''config_file'' ''--config-file''
                ''CICD'' flow_syntax of
           Inl e \<Rightarrow> Inl e
         | Inr _ \<Rightarrow>
            (case check_required_param fc cm args ''env'' ''--env'' ''CICD'' flow_syntax of
               Inl e \<Rightarrow> Inl e
             | Inr _ \<Rightarrow> Inr args))
      else
        (let error_message = import_no_flow_specified_error cm
         in Inl (FabricCLIError error_message (ERROR_IMPORT_VALIDATION fc))))"

subsection \<open>The flow dispatcher\<close>

text \<open>
  The two executors (\<open>import_single_item\<close>, \<open>import_with_config_file\<close>) are external; the
  model records which one \<open>exec_command\<close> calls and with which arguments.
\<close>

datatype 'ctx executor_call =
    Import_single_item 'ctx Namespace
  | Import_with_config_file Namespace

text \<open>
  \<open>exec_command(args, context)\<close>. Three things it uses are outside the sources and are
  parameters: \<open>utils.process_nargs\<close>, the test \<open>isinstance(context, Item)\<close> on the
  hierarchy's elements, and the attribute \<open>validate_args\<close> that the parser may have put
  on the bag (\<open>None\<close> when \<open>hasattr\<close> is false). The value that \<open>validate_args\<close> returns
  is dropped, as in the source. The result is the bag as the function leaves it, and the
  call of an executor, if one is made.
\<close>

definition exec_command ::
  "(pyval \<Rightarrow> pyval) \<Rightarrow> ('ctx \<Rightarrow> bool) \<Rightarrow> (Namespace \<Rightarrow> FabricCLIError + Namespace) option
     \<Rightarrow> Namespace \<Rightarrow> 'ctx \<Rightarrow> FabricCLIError + (Namespace \<times> 'ctx executor_call option)" where
  "exec_command process_nargs isinstance_Item validate_args args context =
     (case (case validate_args of
              None \<Rightarrow> Inr ()
            | Some v \<Rightarrow> (case v args of Inl e \<Rightarrow> Inl e | Inr _ \<Rightarrow> Inr ())) of
        Inl e \<Rightarrow> Inl e
      | Inr _ \<Rightarrow>
         if truthy (py_and (path args) (input args)) then
           (let args' = args\<lparr>input := process_nargs (input args)\<rparr> in
            if isinstance_Item context
            then Inr (args', Some (Import_single_item context args'))
            else Inr (args', None))
         else if truthy (config_file args) then
           Inr (args, Some (Import_with_config_file args))
         else Inr (args, None))"

text \<open>The exception that a call raised, if it raised one.\<close>

definition raised :: "FabricCLIError + 'a \<Rightarrow> FabricCLIError option" where
  "raised r = (case r of Inl e \<Rightarrow> Some e | Inr _ \<Rightarrow> None)"

subsection \<open>Concrete bags and collaborators\<close>

text \<open>
  The test helper \<open>create_args\<close>: every option \<open>None\<close>; the tests then set some.
\<close>

definition create_args :: Namespace where
  "create_args = \<lparr>path = PNone, input = PNone, format = PNone,
                   config_file = PNone, env = PNone, params = PNone\<rparr>"

text \<open>
  Modelled from the spec: the message catalog and the status constant are not among the
  sources, and the spec fixes their signatures only. To run the validator on a concrete
  bag, one instance of each: the missing-parameter sentence has the two fragments that
  the test suite looks for (\<open>... is required for ... flow\<close>, \<open>Correct syntax: ...\<close>); the
  other two sentences and the status code are stand-ins.
\<close>

definition example_constant :: fab_constant where
  "example_constant = \<lparr>ERROR_IMPORT_VALIDATION = ''ImportValidationError''\<rparr>"

definition example_messages :: Common where
  "example_messages =
     \<lparr>import_required_param_missing =
        (\<lambda>param_name flow_name flow_syntax.
           param_name @ '' is required for '' @ flow_name @ '' flow. Correct syntax: ''
             @ flow_syntax),
      import_mixed_flows_error = ''Cannot mix Direct API and CICD flow parameters'',
      import_no_flow_specified_error = ''No import flow specified''\<rparr>"

text \<open>
  Modelled from the spec: the hierarchy module (\<open>FabricElement\<close>, \<open>Item\<close>) and
  \<open>utils.process_nargs\<close> are not among the sources. For concrete runs of the dispatcher:
  an element is a workspace or an item (the tests address \<open>ws1.Workspace/nb1.Notebook\<close>),
  and the normalization makes a list of a single string and keeps a list as it is
  ("a canonical ordered sequence of strings").
\<close>

datatype FabricElement = Workspace string | Item string

fun example_isinstance_Item :: "FabricElement \<Rightarrow> bool" where
  "example_isinstance_Item (Item _) = True"
| "example_isinstance_Item (Workspace _) = False"

fun example_process_nargs :: "pyval \<Rightarrow> pyval" where
  "example_process_nargs (PStr s) = PList [s]"
| "example_process_nargs v = v"

section \<open>Properties\<close>

subsection \<open>Truth values of the compound tests\<close>

lemma truthy_py_or: "truthy (py_or a b) = (truthy a \<or> truthy b)"
  by (simp add: py_or_def)

lemma truthy_py_and: "truthy (py_and a b) = (truthy a \<and> truthy b)"
  by (simp add: py_and_def)

lemma getattr_fields:
  "getattr args ''path'' d = path args"
  "getattr args ''input'' d = input args"
  "getattr args ''config_file'' d = config_file args"
  "getattr args ''env'' d = env args"
  by (simp_all add: getattr_def)

lemma check_required_param_truthy:
  "truthy (getattr args a PNone) \<Longrightarrow> check_required_param fc cm args a p f s = Inr ()"
  by (simp add: check_required_param_def)

lemma check_required_param_falsy:
  "\<not> truthy (getattr args a PNone) \<Longrightarrow>
     check_required_param fc cm args a p f s =
       Inl (FabricCLIError (import_required_param_missing cm p f s)
              (ERROR_IMPORT_VALIDATION fc))"
  by (simp add: check_required_param_def)

subsection \<open>The four outcomes of the validator\<close>

lemma validate_mixed:
  assumes "truthy (path args) \<or> truthy (input args) \<or> truthy (format args)"
    and "truthy (config_file args) \<or> truthy (env args) \<or> truthy (params args)"
  shows "validate_import_args fc cm args =
           Inl (FabricCLIError (import_mixed_flows_error cm) (ERROR_IMPORT_VALIDATION fc))"
  using assms by (simp add: validate_import_args_def truthy_py_or truthy_py_and)

lemma validate_direct:
  assumes "truthy (path args) \<or> truthy (input args) \<or> truthy (format args)"
    and "\<not> truthy (config_file args)" "\<not> truthy (env args)" "\<not> truthy (params args)"
  shows "validate_import_args fc cm args =
           (if \<not> truthy (path args) then
              Inl (FabricCLIError
                     (import_required_param_missing cm ''path'' ''Direct API''
                        ''fab import <path> -i <input_path> [--format <format>]'')
                     (ERROR_IMPORT_VALIDATION fc))
            else if \<not> truthy (input args) then
              Inl (FabricCLIError
                     (import_required_param_missing cm ''-i/--input'' ''Direct API''
                        ''fab import <path> -i <input_path> [--format <format>]'')
                     (ERROR_IMPORT_VALIDATION fc))
            else Inr args)"
  using assms
  by (simp add: validate_import_args_def truthy_py_or truthy_py_and getattr_fields
        check_required_param_truthy check_required_param_falsy)

lemma validate_cicd:
  assumes "\<not> truthy (path args)" "\<not> truthy (input args)" "\<not> truthy (format args)"
    and "truthy (config_file args) \<or> truthy (env args) \<or> truthy (params args)"
  shows "validate_import_args fc cm args =
           (if \<not> truthy (config_file args) then
              Inl (FabricCLIError
                     (import_required_param_missing cm ''--config-file'' ''CICD''
                        ''fab import --config-file <config_path> --env <env_name> [-P <params>]'')
                     (ERROR_IMPORT_VALIDATION fc))
            else if \<not> truthy (env args) then
              Inl (FabricCLIError
                     (import_required_param_missing cm ''--env'' ''CICD''
                        ''fab import --config-file <config_path> --env <env_name> [-P <params>]'')
                     (ERROR_IMPORT_VALIDATION fc))
            else Inr args)"
  using assms
  by (simp add: validate_import_args_def truthy_py_or truthy_py_and getattr_fields
        check_required_param_truthy check_required_param_falsy)

lemma validate_none:
  assumes "\<not> truthy (path args)" "\<not> truthy (input args)" "\<not> truthy (format args)"
    and "\<not> truthy (config_file args)" "\<not> truthy (env args)" "\<not> truthy (params args)"
  shows "validate_import_args fc cm args =
           Inl (FabricCLIError (import_no_flow_specified_error cm)
                  (ERROR_IMPORT_VALIDATION fc))"
  using assms by (simp add: validate_import_args_def truthy_py_or truthy_py_and)

text \<open>Evaluation of the example collaborators.\<close>

lemmas example_defs = create_args_def example_constant_def example_messages_def

subsection \<open>Mixed flows\<close>

text \<open>
  C1. If one of \<open>path\<close>, \<open>input\<close>, \<open>format\<close> is non-empty and one of \<open>config_file\<close>,
  \<open>env\<close>, \<open>params\<close> is non-empty, validation fails with the mixed-flows message,
  whichever required fields are missing; so the failure is never a missing-parameter
  error (for any missing-parameter sentence that is not the mixed-flows sentence
  itself).
\<close>

theorem mixed_flows_rejected_first:
  assumes "truthy (path args) \<or> truthy (input args) \<or> truthy (format args)"
    and "truthy (config_file args) \<or> truthy (env args) \<or> truthy (params args)"
  shows "validate_import_args fc cm args =
           Inl (FabricCLIError (import_mixed_flows_error cm) (ERROR_IMPORT_VALIDATION fc))
         \<and> (\<forall>p f s. import_required_param_missing cm p f s \<noteq> import_mixed_flows_error cm
               \<longrightarrow> validate_import_args fc cm args \<noteq>
                     Inl (FabricCLIError (import_required_param_missing cm p f s)
                            (ERROR_IMPORT_VALIDATION fc)))"
proof -
  have "validate_import_args fc cm args =
          Inl (FabricCLIError (import_mixed_flows_error cm) (ERROR_IMPORT_VALIDATION fc))"
    using assms by (rule validate_mixed)
  then show ?thesis by simp
qed

text \<open>
  A bag with only the two optional fields set lacks every required field of both flows,
  and is still reported as mixed.
\<close>

theorem mixed_flows_rejected_first_witness:
  "truthy (format (create_args\<lparr>format := PStr ''.ipynb'', params := PStr ''key=value''\<rparr>))
   \<and> truthy (params (create_args\<lparr>format := PStr ''.ipynb'', params := PStr ''key=value''\<rparr>))
   \<and> validate_import_args example_constant example_messages
        (create_args\<lparr>format := PStr ''.ipynb'', params := PStr ''key=value''\<rparr>) =
       Inl (FabricCLIError ''Cannot mix Direct API and CICD flow parameters''
              ''ImportValidationError'')
   \<and> validate_import_args example_constant example_messages
        (create_args\<lparr>format := PStr ''.ipynb'', params := PStr ''key=value''\<rparr>) \<noteq>
       Inl (FabricCLIError
              (import_required_param_missing example_messages ''path'' ''Direct API''
                 ''fab import <path> -i <input_path> [--format <format>]'')
              ''ImportValidationError'')"
  using mixed_flows_rejected_first
          [of "create_args\<lparr>format := PStr ''.ipynb'', params := PStr ''key=value''\<rparr>"
              example_constant example_messages]
  by (simp add: example_defs)

subsection \<open>Required fields of the two flows\<close>

text \<open>
  C2. A bag that is a candidate for the Direct flow only (one of \<open>path\<close>, \<open>input\<close>,
  \<open>format\<close> non-empty, none of \<open>config_file\<close>, \<open>env\<close>, \<open>params\<close>): if \<open>path\<close> is empty
  the validator fails with the missing-parameter error for "path", flow "Direct API"
  and the Direct syntax, also when \<open>input\<close> is empty too; otherwise if \<open>input\<close> is empty
  it fails with the one for "-i/--input"; otherwise it succeeds.
\<close>

theorem direct_flow_required_params:
  assumes "truthy (path args) \<or> truthy (input args) \<or> truthy (format args)"
    and "\<not> (truthy (config_file args) \<or> truthy (env args) \<or> truthy (params args))"
  shows "validate_import_args fc cm args =
           (if \<not> truthy (path args) then
              Inl (FabricCLIError
                     (import_required_param_missing cm ''path'' ''Direct API''
                        ''fab import <path> -i <input_path> [--format <format>]'')
                     (ERROR_IMPORT_VALIDATION fc))
            else if \<not> truthy (input args) then
              Inl (FabricCLIError
                     (import_required_param_missing cm ''-i/--input'' ''Direct API''
                        ''fab import <path> -i <input_path> [--format <format>]'')
                     (ERROR_IMPORT_VALIDATION fc))
            else Inr args)"
  using assms by (intro validate_direct) simp_all

text \<open>The three cases, on the bags of the test suite.\<close>

theorem direct_flow_required_params_witness:
  "validate_import_args example_constant example_messages
     (create_args\<lparr>format := PStr ''.ipynb''\<rparr>) =
     Inl (FabricCLIError
       ''path is required for Direct API flow. Correct syntax: fab import <path> -i <input_path> [--format <format>]''
       ''ImportValidationError'')
   \<and> validate_import_args example_constant example_messages
     (create_args\<lparr>path := PList [''ws1.Workspace/nb1.Notebook'']\<rparr>) =
     Inl (FabricCLIError
       ''-i/--input is required for Direct API flow. Correct syntax: fab import <path> -i <input_path> [--format <format>]''
       ''ImportValidationError'')
   \<and> validate_import_args example_constant example_messages
     (create_args\<lparr>path := PList [''ws1.Workspace/nb1.Notebook''],
                   input := PList [''/path/to/input'']\<rparr>) =
     Inr (create_args\<lparr>path := PList [''ws1.Workspace/nb1.Notebook''],
                      input := PList [''/path/to/input'']\<rparr>)"
  using direct_flow_required_params
          [of "create_args\<lparr>format := PStr ''.ipynb''\<rparr>" example_constant example_messages]
        direct_flow_required_params
          [of "create_args\<lparr>path := PList [''ws1.Workspace/nb1.Notebook'']\<rparr>"
              example_constant example_messages]
        direct_flow_required_params
          [of "create_args\<lparr>path := PList [''ws1.Workspace/nb1.Notebook''],
                            input := PList [''/path/to/input'']\<rparr>"
              example_constant example_messages]
  by (simp add: example_defs)

text \<open>
  C3. A bag that is a candidate for the Config flow only (one of \<open>config_file\<close>, \<open>env\<close>,
  \<open>params\<close> non-empty, none of \<open>path\<close>, \<open>input\<close>, \<open>format\<close>): if \<open>config_file\<close> is
  empty the validator fails with the missing-parameter error for "--config-file", flow
  "CICD" and the Config syntax; otherwise if \<open>env\<close> is empty it fails with the one for
  "--env"; otherwise it succeeds.
\<close>

theorem cicd_flow_required_params:
  assumes "truthy (config_file args) \<or> truthy (env args) \<or> truthy (params args)"
    and "\<not> (truthy (path args) \<or> truthy (input args) \<or> truthy (format args))"
  shows "validate_import_args fc cm args =
           (if \<not> truthy (config_file args) then
              Inl (FabricCLIError
                     (import_required_param_missing cm ''--config-file'' ''CICD''
                        ''fab import --config-file <config_path> --env <env_name> [-P <params>]'')
                     (ERROR_IMPORT_VALIDATION fc))
            else if \<not> truthy (env args) then
              Inl (FabricCLIError
                     (import_required_param_missing cm ''--env'' ''CICD''
                        ''fab import --config-file <config_path> --env <env_name> [-P <params>]'')
                     (ERROR_IMPORT_VALIDATION fc))
            else Inr args)"
  using assms by (intro validate_cicd) simp_all

theorem cicd_flow_required_params_witness:
  "validate_import_args example_constant example_messages
     (create_args\<lparr>env := PStr ''production''\<rparr>) =
     Inl (FabricCLIError
       ''--config-file is required for CICD flow. Correct syntax: fab import --config-file <config_path> --env <env_name> [-P <params>]''
       ''ImportValidationError'')
   \<and> validate_import_args example_constant example_messages
     (create_args\<lparr>config_file := PStr ''/path/to/config.yml''\<rparr>) =
     Inl (FabricCLIError
       ''--env is required for CICD flow. Correct syntax: fab import --config-file <config_path> --env <env_name> [-P <params>]''
       ''ImportValidationError'')
   \<and> validate_import_args example_constant example_messages
     (create_args\<lparr>config_file := PStr ''/path/to/config.yml'', env := PStr ''production''\<rparr>) =
     Inr (create_args\<lparr>config_file := PStr ''/path/to/config.yml'',
                      env := PStr ''production''\<rparr>)"
  using cicd_flow_required_params
          [of "create_args\<lparr>env := PStr ''production''\<rparr>" example_constant example_messages]
        cicd_flow_required_params
          [of "create_args\<lparr>config_file := PStr ''/path/to/config.yml''\<rparr>"
              example_constant example_messages]
        cicd_flow_required_params
          [of "create_args\<lparr>config_file := PStr ''/path/to/config.yml'',
                            env := PStr ''production''\<rparr>"
              example_constant example_messages]
  by (simp add: example_defs)

subsection \<open>Optional fields alone, and the empty bag\<close>

text \<open>
  C5. A bag whose only non-empty field is \<open>format\<close> does not get the no-flow error: it
  is checked as a Direct flow and fails with the missing-parameter error for "path" and
  flow "Direct API". A bag whose only non-empty field is \<open>params\<close> is checked as a Config
  flow and fails with the one for "--config-file" and flow "CICD". (The error differs
  from the no-flow error whenever the catalog's two sentences differ.)
\<close>

theorem optional_field_alone_selects_flow:
  "(truthy (format args) \<and> \<not> truthy (path args) \<and> \<not> truthy (input args)
      \<and> \<not> truthy (config_file args) \<and> \<not> truthy (env args) \<and> \<not> truthy (params args)
    \<longrightarrow> validate_import_args fc cm args =
          Inl (FabricCLIError
                 (import_required_param_missing cm ''path'' ''Direct API''
                    ''fab import <path> -i <input_path> [--format <format>]'')
                 (ERROR_IMPORT_VALIDATION fc))
        \<and> (import_required_param_missing cm ''path'' ''Direct API''
                    ''fab import <path> -i <input_path> [--format <format>]''
              \<noteq> import_no_flow_specified_error cm
            \<longrightarrow> validate_import_args fc cm args \<noteq>
                  Inl (FabricCLIError (import_no_flow_specified_error cm)
                         (ERROR_IMPORT_VALIDATION fc))))
   \<and> (truthy (params args) \<and> \<not> truthy (path args) \<and> \<not> truthy (input args)
      \<and> \<not> truthy (format args) \<and> \<not> truthy (config_file args) \<and> \<not> truthy (env args)
    \<longrightarrow> validate_import_args fc cm args =
          Inl (FabricCLIError
                 (import_required_param_missing cm ''--config-file'' ''CICD''
                    ''fab import --config-file <config_path> --env <env_name> [-P <params>]'')
                 (ERROR_IMPORT_VALIDATION fc))
        \<and> (import_required_param_missing cm ''--config-file'' ''CICD''
                    ''fab import --config-file <config_path> --env <env_name> [-P <params>]''
              \<noteq> import_no_flow_specified_error cm
            \<longrightarrow> validate_import_args fc cm args \<noteq>
                  Inl (FabricCLIError (import_no_flow_specified_error cm)
                         (ERROR_IMPORT_VALIDATION fc))))"
proof (intro conjI impI)
  assume a: "truthy (format args) \<and> \<not> truthy (path args) \<and> \<not> truthy (input args)
      \<and> \<not> truthy (config_file args) \<and> \<not> truthy (env args) \<and> \<not> truthy (params args)"
  then show d: "validate_import_args fc cm args =
          Inl (FabricCLIError
                 (import_required_param_missing cm ''path'' ''Direct API''
                    ''fab import <path> -i <input_path> [--format <format>]'')
                 (ERROR_IMPORT_VALIDATION fc))"
    by (simp add: validate_direct)
  assume "import_required_param_missing cm ''path'' ''Direct API''
                    ''fab import <path> -i <input_path> [--format <format>]''
            \<noteq> import_no_flow_specified_error cm"
  with d show "validate_import_args fc cm args \<noteq>
      Inl (FabricCLIError (import_no_flow_specified_error cm) (ERROR_IMPORT_VALIDATION fc))"
    by simp
next
  assume a: "truthy (params args) \<and> \<not> truthy (path args) \<and> \<not> truthy (input args)
      \<and> \<not> truthy (format args) \<and> \<not> truthy (config_file args) \<and> \<not> truthy (env args)"
  then show c: "validate_import_args fc cm args =
          Inl (FabricCLIError
                 (import_required_param_missing cm ''--config-file'' ''CICD''
                    ''fab import --config-file <config_path> --env <env_name> [-P <params>]'')
                 (ERROR_IMPORT_VALIDATION fc))"
    by (simp add: validate_cicd)
  assume "import_required_param_missing cm ''--config-file'' ''CICD''
                    ''fab import --config-file <config_path> --env <env_name> [-P <params>]''
            \<noteq> import_no_flow_specified_error cm"
  with c show "validate_import_args fc cm args \<noteq>
      Inl (FabricCLIError (import_no_flow_specified_error cm) (ERROR_IMPORT_VALIDATION fc))"
    by simp
qed

theorem optional_field_alone_selects_flow_witness:
  "validate_import_args example_constant example_messages
     (create_args\<lparr>format := PStr ''.ipynb''\<rparr>) =
     Inl (FabricCLIError
       ''path is required for Direct API flow. Correct syntax: fab import <path> -i <input_path> [--format <format>]''
       ''ImportValidationError'')
   \<and> validate_import_args example_constant example_messages
     (create_args\<lparr>format := PStr ''.ipynb''\<rparr>) \<noteq>
     Inl (FabricCLIError ''No import flow specified'' ''ImportValidationError'')
   \<and> validate_import_args example_constant example_messages
     (create_args\<lparr>params := PStr ''key=value''\<rparr>) =
     Inl (FabricCLIError
       ''--config-file is required for CICD flow. Correct syntax: fab import --config-file <config_path> --env <env_name> [-P <params>]''
       ''ImportValidationError'')
   \<and> validate_import_args example_constant example_messages
     (create_args\<lparr>params := PStr ''key=value''\<rparr>) \<noteq>
     Inl (FabricCLIError ''No import flow specified'' ''ImportValidationError'')"
  using optional_field_alone_selects_flow
          [of "create_args\<lparr>format := PStr ''.ipynb''\<rparr>" example_constant example_messages]
        optional_field_alone_selects_flow
          [of "create_args\<lparr>params := PStr ''key=value''\<rparr>" example_constant example_messages]
  by (simp add: example_defs)

text \<open>
  C6. A bag in which all six fields are empty or \<open>None\<close> fails with the no-flow
  message, and that failure is none of the missing-parameter errors (for any
  missing-parameter sentence that is not the no-flow sentence itself).
\<close>

theorem empty_bag_no_flow_specified:
  assumes "\<not> truthy (path args)" "\<not> truthy (input args)" "\<not> truthy (format args)"
    and "\<not> truthy (config_file args)" "\<not> truthy (env args)" "\<not> truthy (params args)"
  shows "validate_import_args fc cm args =
           Inl (FabricCLIError (import_no_flow_specified_error cm)
                  (ERROR_IMPORT_VALIDATION fc))
         \<and> (\<forall>p f s. import_required_param_missing cm p f s
                       \<noteq> import_no_flow_specified_error cm
               \<longrightarrow> validate_import_args fc cm args \<noteq>
                     Inl (FabricCLIError (import_required_param_missing cm p f s)
                            (ERROR_IMPORT_VALIDATION fc)))"
proof -
  have "validate_import_args fc cm args =
          Inl (FabricCLIError (import_no_flow_specified_error cm)
                 (ERROR_IMPORT_VALIDATION fc))"
    using assms by (rule validate_none)
  then show ?thesis by simp
qed

text \<open>The bag \<open>create_args()\<close>, and a bag of empty values.\<close>

theorem empty_bag_no_flow_specified_witness:
  "validate_import_args example_constant example_messages create_args =
     Inl (FabricCLIError ''No import flow specified'' ''ImportValidationError'')
   \<and> validate_import_args example_constant example_messages create_args \<noteq>
     Inl (FabricCLIError
            (import_required_param_missing example_messages ''path'' ''Direct API''
                    ''fab import <path> -i <input_path> [--format <format>]'')
            ''ImportValidationError'')
   \<and> validate_import_args example_constant example_messages
       (create_args\<lparr>path := PList [], env := PStr []\<rparr>) =
     Inl (FabricCLIError ''No import flow specified'' ''ImportValidationError'')"
  using empty_bag_no_flow_specified [of create_args example_constant example_messages]
        empty_bag_no_flow_specified
          [of "create_args\<lparr>path := PList [], env := PStr []\<rparr>"
              example_constant example_messages]
  by (simp add: example_defs)

subsection \<open>The validator returns its argument\<close>

text \<open>
  C7. A bag that passes validation is returned as it is, equal in every field, and
  validating the returned bag again gives the same outcome. The validator reads the bag,
  the catalog and the status constant only, so it is a function of them: a second call
  on an unchanged bag has the outcome of the first, success or error.
\<close>

theorem validate_returns_same_bag:
  assumes "validate_import_args fc cm args = Inr b"
  shows "b = args \<and> validate_import_args fc cm b = validate_import_args fc cm args
         \<and> validate_import_args fc cm b = Inr b"
proof -
  have "b = args"
    using assms
    by (auto simp: validate_import_args_def check_required_param_def Let_def
             split: if_splits sum.splits)
  with assms show ?thesis by simp
qed

theorem validate_returns_same_bag_witness:
  "validate_import_args example_constant example_messages
     (create_args\<lparr>path := PList [''ws1.Workspace/nb1.Notebook''],
                   input := PList [''/path/to/input''], format := PStr ''.ipynb''\<rparr>) =
     Inr (create_args\<lparr>path := PList [''ws1.Workspace/nb1.Notebook''],
                      input := PList [''/path/to/input''], format := PStr ''.ipynb''\<rparr>)"
proof -
  have ok: "validate_import_args example_constant example_messages
     (create_args\<lparr>path := PList [''ws1.Workspace/nb1.Notebook''],
                   input := PList [''/path/to/input''], format := PStr ''.ipynb''\<rparr>) =
     Inr (create_args\<lparr>path := PList [''ws1.Workspace/nb1.Notebook''],
                      input := PList [''/path/to/input''], format := PStr ''.ipynb''\<rparr>)"
    by (simp add: validate_direct example_defs)
  from validate_returns_same_bag [OF ok] show ?thesis by simp
qed

subsection \<open>The status code of a validation failure\<close>

text \<open>
  C8. Every failure of the validator carries the status code
  \<open>ERROR_IMPORT_VALIDATION\<close>, and its message is the mixed-flows sentence, the no-flow
  sentence, or one of the four missing-parameter sentences.
\<close>

theorem validation_failure_status_code:
  assumes "validate_import_args fc cm args = Inl e"
  shows "status_code e = ERROR_IMPORT_VALIDATION fc
         \<and> message e \<in>
             {import_mixed_flows_error cm, import_no_flow_specified_error cm,
              import_required_param_missing cm ''path'' ''Direct API''
                    ''fab import <path> -i <input_path> [--format <format>]'',
              import_required_param_missing cm ''-i/--input'' ''Direct API''
                    ''fab import <path> -i <input_path> [--format <format>]'',
              import_required_param_missing cm ''--config-file'' ''CICD''
                    ''fab import --config-file <config_path> --env <env_name> [-P <params>]'',
              import_required_param_missing cm ''--env'' ''CICD''
                    ''fab import --config-file <config_path> --env <env_name> [-P <params>]''}"
  using assms
  by (auto simp: validate_import_args_def check_required_param_def Let_def
           split: if_splits sum.splits)

theorem validation_failure_status_code_witness:
  "validate_import_args example_constant example_messages create_args =
     Inl (FabricCLIError ''No import flow specified'' ''ImportValidationError'')
   \<and> status_code (FabricCLIError ''No import flow specified'' ''ImportValidationError'') =
     ERROR_IMPORT_VALIDATION example_constant"
proof -
  have ko: "validate_import_args example_constant example_messages create_args =
     Inl (FabricCLIError ''No import flow specified'' ''ImportValidationError'')"
    by (simp add: validate_none example_defs)
  from validation_failure_status_code [OF ko] ko show ?thesis by simp
qed

subsection \<open>Empty values count as absent\<close>

lemma raised_eq_Inl: "raised r = raised (Inl e) \<Longrightarrow> r = Inl e"
  by (cases r) (simp_all add: raised_def)

lemma check_required_param_presence:
  "truthy (getattr a n PNone) = truthy (getattr b n PNone) \<Longrightarrow>
     check_required_param fc cm a n p f s = check_required_param fc cm b n p f s"
  by (simp add: check_required_param_def)

lemma validate_presence:
  assumes "truthy (path a) = truthy (path b)" "truthy (input a) = truthy (input b)"
    and "truthy (format a) = truthy (format b)"
    and "truthy (config_file a) = truthy (config_file b)"
    and "truthy (env a) = truthy (env b)" "truthy (params a) = truthy (params b)"
  shows "raised (validate_import_args fc cm a) = raised (validate_import_args fc cm b)"
  using assms
  by (auto simp: raised_def validate_import_args_def check_required_param_def
        getattr_fields truthy_py_or truthy_py_and)

text \<open>
  C9. Presence is truthiness, everywhere: a field that holds the empty string or the
  empty list is treated as the same field holding \<open>None\<close>. For each of the six fields,
  the validator raises the same error, or succeeds, on both bags, and so does each
  required-field check, whichever attribute it reads.
\<close>

theorem empty_value_is_absent:
  assumes "v = PStr [] \<or> v = PList []"
  shows "raised (validate_import_args fc cm (args\<lparr>path := v\<rparr>)) =
           raised (validate_import_args fc cm (args\<lparr>path := PNone\<rparr>))
       \<and> raised (validate_import_args fc cm (args\<lparr>input := v\<rparr>)) =
           raised (validate_import_args fc cm (args\<lparr>input := PNone\<rparr>))
       \<and> raised (validate_import_args fc cm (args\<lparr>format := v\<rparr>)) =
           raised (validate_import_args fc cm (args\<lparr>format := PNone\<rparr>))
       \<and> raised (validate_import_args fc cm (args\<lparr>config_file := v\<rparr>)) =
           raised (validate_import_args fc cm (args\<lparr>config_file := PNone\<rparr>))
       \<and> raised (validate_import_args fc cm (args\<lparr>env := v\<rparr>)) =
           raised (validate_import_args fc cm (args\<lparr>env := PNone\<rparr>))
       \<and> raised (validate_import_args fc cm (args\<lparr>params := v\<rparr>)) =
           raised (validate_import_args fc cm (args\<lparr>params := PNone\<rparr>))
       \<and> check_required_param fc cm (args\<lparr>path := v\<rparr>) n p f s =
           check_required_param fc cm (args\<lparr>path := PNone\<rparr>) n p f s
       \<and> check_required_param fc cm (args\<lparr>input := v\<rparr>) n p f s =
           check_required_param fc cm (args\<lparr>input := PNone\<rparr>) n p f s
       \<and> check_required_param fc cm (args\<lparr>format := v\<rparr>) n p f s =
           check_required_param fc cm (args\<lparr>format := PNone\<rparr>) n p f s
       \<and> check_required_param fc cm (args\<lparr>config_file := v\<rparr>) n p f s =
           check_required_param fc cm (args\<lparr>config_file := PNone\<rparr>) n p f s
       \<and> check_required_param fc cm (args\<lparr>env := v\<rparr>) n p f s =
           check_required_param fc cm (args\<lparr>env := PNone\<rparr>) n p f s
       \<and> check_required_param fc cm (args\<lparr>params := v\<rparr>) n p f s =
           check_required_param fc cm (args\<lparr>params := PNone\<rparr>) n p f s"
proof -
  have v: "truthy v = False"
    using assms by auto
  show ?thesis
    by (intro conjI validate_presence check_required_param_presence)
       (simp_all add: v getattr_def)
qed

text \<open>
  The two bags of the claim: \<open>path = []\<close> with an input fails as a Direct flow without
  a path; \<open>format = ""\<close> alone is the empty bag.
\<close>

theorem empty_value_is_absent_witness:
  "validate_import_args example_constant example_messages
     (create_args\<lparr>input := PList [''/path/to/input''], path := PList []\<rparr>) =
     Inl (FabricCLIError
       ''path is required for Direct API flow. Correct syntax: fab import <path> -i <input_path> [--format <format>]''
       ''ImportValidationError'')
   \<and> validate_import_args example_constant example_messages
     (create_args\<lparr>format := PStr []\<rparr>) =
     Inl (FabricCLIError ''No import flow specified'' ''ImportValidationError'')"
proof -
  have absent:
    "validate_import_args example_constant example_messages
       (create_args\<lparr>input := PList [''/path/to/input''], path := PNone\<rparr>) =
     Inl (FabricCLIError
       ''path is required for Direct API flow. Correct syntax: fab import <path> -i <input_path> [--format <format>]''
       ''ImportValidationError'')"
    "validate_import_args example_constant example_messages
       (create_args\<lparr>format := PNone\<rparr>) =
     Inl (FabricCLIError ''No import flow specified'' ''ImportValidationError'')"
    by (simp_all add: validate_direct validate_none example_defs)
  have list: "PList [] = PStr [] \<or> PList [] = PList []"
    and str: "PStr [] = PStr [] \<or> PStr [] = PList []"
    by simp_all
  have path_empty:
       "raised (validate_import_args example_constant example_messages
          (create_args\<lparr>input := PList [''/path/to/input''], path := PList []\<rparr>)) =
        raised (validate_import_args example_constant example_messages
          (create_args\<lparr>input := PList [''/path/to/input''], path := PNone\<rparr>))"
    by (rule empty_value_is_absent [OF list, THEN conjunct1])
  have format_empty:
       "raised (validate_import_args example_constant example_messages
          (create_args\<lparr>format := PStr []\<rparr>)) =
        raised (validate_import_args example_constant example_messages
          (create_args\<lparr>format := PNone\<rparr>))"
    by (rule empty_value_is_absent [OF str, THEN conjunct2, THEN conjunct2, THEN conjunct1])
  show ?thesis
    by (intro conjI raised_eq_Inl) (simp_all add: path_empty format_empty absent)
qed

subsection \<open>The dispatcher\<close>

lemma exec_command_direct:
  assumes "validate_args = None \<or> (\<exists>v r. validate_args = Some v \<and> v args = Inr r)"
    and "truthy (path args)" "truthy (input args)"
  shows "exec_command pn is_item validate_args args context =
           (if is_item context
            then Inr (args\<lparr>input := pn (input args)\<rparr>,
                      Some (Import_single_item context (args\<lparr>input := pn (input args)\<rparr>)))
            else Inr (args\<lparr>input := pn (input args)\<rparr>, None))"
  using assms by (auto simp: exec_command_def truthy_py_and Let_def)

lemma exec_command_config:
  assumes "validate_args = None \<or> (\<exists>v r. validate_args = Some v \<and> v args = Inr r)"
    and "\<not> (truthy (path args) \<and> truthy (input args))" "truthy (config_file args)"
  shows "exec_command pn is_item validate_args args context =
           Inr (args, Some (Import_with_config_file args))"
  using assms by (auto simp: exec_command_def truthy_py_and Let_def)

lemma validated_config_not_direct:
  assumes "validate_import_args fc cm args = Inr r" and "truthy (config_file args)"
  shows "\<not> truthy (path args) \<and> \<not> truthy (input args)"
  using assms
  by (auto simp: validate_import_args_def truthy_py_or truthy_py_and Let_def
           split: if_splits)

text \<open>
  C4, as the code has it. For a validated Direct-flow bag (\<open>path\<close> and \<open>input\<close> both
  present) and a context that is not an \<open>Item\<close>, \<open>exec_command\<close> raises nothing: it
  returns without calling an executor, and its only effect is that \<open>input\<close> holds its
  normalized form.
\<close>

theorem dispatch_non_item_returns_silently:
  assumes "validate_args = None \<or> (\<exists>v r. validate_args = Some v \<and> v args = Inr r)"
    and "truthy (path args)" "truthy (input args)"
    and "\<not> is_item context"
  shows "exec_command pn is_item validate_args args context =
           Inr (args\<lparr>input := pn (input args)\<rparr>, None)"
  using assms by (simp add: exec_command_direct)

theorem dispatch_non_item_returns_silently_witness:
  "exec_command example_process_nargs example_isinstance_Item
     (Some (validate_import_args example_constant example_messages))
     (create_args\<lparr>path := PList [''ws1.Workspace/nb1.Notebook''],
                   input := PStr ''/path/to/input''\<rparr>)
     (Workspace ''ws1.Workspace'') =
   Inr (create_args\<lparr>path := PList [''ws1.Workspace/nb1.Notebook''],
                    input := PList [''/path/to/input'']\<rparr>, None)"
  using dispatch_non_item_returns_silently
          [of "Some (validate_import_args example_constant example_messages)"
              "create_args\<lparr>path := PList [''ws1.Workspace/nb1.Notebook''],
                            input := PStr ''/path/to/input''\<rparr>"
              example_isinstance_Item "Workspace ''ws1.Workspace''" example_process_nargs]
  by (simp add: validate_direct example_defs)

text \<open>
  The claim as the spec has it (a dispatch-time error for a context that is not an
  item) fails: the bag below passes validation, the context is a workspace, and the call
  returns normally with no executor called.
\<close>

theorem dispatch_rejected_counterexample:
  "validate_import_args example_constant example_messages
     (create_args\<lparr>path := PList [''ws1.Workspace/nb1.Notebook''],
                   input := PList [''/path/to/input'']\<rparr>) =
     Inr (create_args\<lparr>path := PList [''ws1.Workspace/nb1.Notebook''],
                      input := PList [''/path/to/input'']\<rparr>)
   \<and> \<not> example_isinstance_Item (Workspace ''ws1.Workspace'')
   \<and> exec_command example_process_nargs example_isinstance_Item
       (Some (validate_import_args example_constant example_messages))
       (create_args\<lparr>path := PList [''ws1.Workspace/nb1.Notebook''],
                     input := PList [''/path/to/input'']\<rparr>)
       (Workspace ''ws1.Workspace'') =
     Inr (create_args\<lparr>path := PList [''ws1.Workspace/nb1.Notebook''],
                      input := PList [''/path/to/input'']\<rparr>, None)"
  by (simp add: exec_command_direct validate_direct example_defs)

text \<open>
  C10. When \<open>exec_command\<close> runs a Direct-flow bag (\<open>path\<close> and \<open>input\<close> non-empty, the
  context an item), the bag it hands to the Direct executor, and leaves behind, differs
  from the given one in \<open>input\<close> only, which holds the normalized value; \<open>path\<close>,
  \<open>format\<close>, \<open>config_file\<close>, \<open>env\<close> and \<open>params\<close> are as before. When it runs a
  Config-flow bag (\<open>config_file\<close> non-empty, not of Direct shape) the bag is unchanged
  in every field. A bag with \<open>config_file\<close> that passed \<open>validate_import_args\<close> is
  never of Direct shape.
\<close>

theorem dispatch_frame:
  "(validate_args = None \<or> (\<exists>v r. validate_args = Some v \<and> v args = Inr r)) \<longrightarrow>
     (truthy (path args) \<and> truthy (input args) \<and> is_item context \<longrightarrow>
        (\<exists>args'. exec_command pn is_item validate_args args context =
                   Inr (args', Some (Import_single_item context args'))
           \<and> input args' = pn (input args)
           \<and> path args' = path args \<and> format args' = format args
           \<and> config_file args' = config_file args \<and> env args' = env args
           \<and> params args' = params args))
     \<and> (\<not> (truthy (path args) \<and> truthy (input args)) \<and> truthy (config_file args) \<longrightarrow>
          exec_command pn is_item validate_args args context =
            Inr (args, Some (Import_with_config_file args)))
     \<and> (truthy (config_file args)
          \<and> validate_args = Some (validate_import_args fc cm) \<longrightarrow>
          exec_command pn is_item validate_args args context =
            Inr (args, Some (Import_with_config_file args)))"
proof (intro impI conjI)
  assume ok: "validate_args = None \<or> (\<exists>v r. validate_args = Some v \<and> v args = Inr r)"
  {
    assume "truthy (path args) \<and> truthy (input args) \<and> is_item context"
    then have "exec_command pn is_item validate_args args context =
        Inr (args\<lparr>input := pn (input args)\<rparr>,
             Some (Import_single_item context (args\<lparr>input := pn (input args)\<rparr>)))"
      using ok by (simp add: exec_command_direct)
    then show "\<exists>args'. exec_command pn is_item validate_args args context =
                   Inr (args', Some (Import_single_item context args'))
           \<and> input args' = pn (input args)
           \<and> path args' = path args \<and> format args' = format args
           \<and> config_file args' = config_file args \<and> env args' = env args
           \<and> params args' = params args"
      by simp
  }
  {
    assume "\<not> (truthy (path args) \<and> truthy (input args)) \<and> truthy (config_file args)"
    then show "exec_command pn is_item validate_args args context =
            Inr (args, Some (Import_with_config_file args))"
      using ok by (simp add: exec_command_config)
  }
  {
    assume a: "truthy (config_file args)
                 \<and> validate_args = Some (validate_import_args fc cm)"
    with ok obtain r where r: "validate_import_args fc cm args = Inr r"
      by auto
    with a have "\<not> truthy (path args) \<and> \<not> truthy (input args)"
      by (simp add: validated_config_not_direct)
    with a ok show "exec_command pn is_item validate_args args context =
            Inr (args, Some (Import_with_config_file args))"
      by (simp add: exec_command_config)
  }
qed

theorem dispatch_frame_witness:
  "exec_command example_process_nargs example_isinstance_Item
     (Some (validate_import_args example_constant example_messages))
     (create_args\<lparr>path := PList [''ws1.Workspace/nb1.Notebook''],
                   input := PStr ''/path/to/input'', format := PStr ''.ipynb''\<rparr>)
     (Item ''ws1.Workspace/nb1.Notebook'') =
   Inr (create_args\<lparr>path := PList [''ws1.Workspace/nb1.Notebook''],
                    input := PList [''/path/to/input''], format := PStr ''.ipynb''\<rparr>,
        Some (Import_single_item (Item ''ws1.Workspace/nb1.Notebook'')
               (create_args\<lparr>path := PList [''ws1.Workspace/nb1.Notebook''],
                    input := PList [''/path/to/input''], format := PStr ''.ipynb''\<rparr>)))
   \<and> exec_command example_process_nargs example_isinstance_Item
     (Some (validate_import_args example_constant example_messages))
     (create_args\<lparr>config_file := PStr ''/path/to/config.yml'', env := PStr ''production''\<rparr>)
     (Workspace ''ws1.Workspace'') =
   Inr (create_args\<lparr>config_file := PStr ''/path/to/config.yml'', env := PStr ''production''\<rparr>,
        Some (Import_with_config_file
               (create_args\<lparr>config_file := PStr ''/path/to/config.yml'',
                             env := PStr ''production''\<rparr>)))"
  using dispatch_frame
          [of "Some (validate_import_args example_constant example_messages)"
              "create_args\<lparr>path := PList [''ws1.Workspace/nb1.Notebook''],
                   input := PStr ''/path/to/input'', format := PStr ''.ipynb''\<rparr>"
              example_isinstance_Item "Item ''ws1.Workspace/nb1.Notebook''"
              example_process_nargs example_constant example_messages]
        dispatch_frame
          [of "Some (validate_import_args example_constant example_messages)"
              "create_args\<lparr>config_file := PStr ''/path/to/config.yml'',
                            env := PStr ''production''\<rparr>"
              example_isinstance_Item "Workspace ''ws1.Workspace''"
              example_process_nargs example_constant example_messages]
  by (auto simp: validate_direct validate_cicd example_defs)

end
